theory Spec2Isabelle
  imports Main "HOL-Library.AList"
begin

section \<open>The queue service of the task queue and its in-memory queue client\<close>

text \<open>
  This theory embeds \<open>QueueService\<close> and \<open>FakeQueueClient\<close> (queueservice.js).

  Conventions of the embedding:
  \<^item> A JavaScript \<open>Date\<close> is its \<open>getTime()\<close> value: an \<open>int\<close> of milliseconds. Only valid
    dates are values of this type, so the \<open>instanceof Date\<close> and \<open>isFinite\<close> assertions on
    arguments hold by typing, as do the \<open>typeof\<close> assertions.
  \<^item> Every operation reads the clock once: the reading is the argument \<open>now\<close>.
  \<^item> An \<open>async\<close> method is run to completion: a promise is the result it settles to,
    \<open>Inl\<close> for a rejection and \<open>Inr\<close> for a fulfilment. The callbacks handed to
    \<open>Promise.all\<close> are run one after the other in list order, and all of them are run
    even when one fails; the first failure in list order is the rejection.
  \<^item> The queue client is a record of operations over a client state \<open>'c\<close>, so that the
    service is defined for every client; \<open>FakeQueueClient\<close> is one such record.
  \<^item> The functions of Node and of libraries (digest and base-32 encoding, JSON and
    base64, date formatting and parsing) are the fields of the record \<open>lib\<close>.
  \<^item> The field \<open>calls\<close> of the service state is a ghost field: the list of the client
    calls made so far, in order. The field \<open>reported\<close> collects what is handed to
    \<open>monitor.reportError\<close>.
  \<^item> The \<open>note\<close>, \<open>queue\<close>, \<open>provisionerId\<close> and \<open>workerType\<close> properties that the service
    attaches to an error before reporting it are not part of the error value.
\<close>

subsection \<open>Values\<close>

type_synonym time = int

datatype error = Error (message: string) (code: "string option") (statusCode: "int option")

definition AssertionError :: "string \<Rightarrow> error" where
  "AssertionError msg = Error msg (Some ''ERR_ASSERTION'') None"

definition TypeError :: "string \<Rightarrow> error" where
  "TypeError msg = Error msg None None"

definition SyntaxError :: "string \<Rightarrow> error" where
  "SyntaxError msg = Error msg None None"

text \<open>The JSON values that the service puts into messages: strings, numbers, objects.\<close>

datatype json = JStr string | JNum int | JObj "(string \<times> json) list"


text \<open>Queue meta-data: the three keys that the service maintains; \<open>None\<close> is an absent key.\<close>

record metadata =
  provisioner_id :: "string option"
  worker_type :: "string option"
  last_used :: "string option"

definition no_metadata :: metadata where
  "no_metadata = \<lparr>provisioner_id = None, worker_type = None, last_used = None\<rparr>"

text \<open>\<open>Object.assign(metadata, update)\<close>: the keys present in \<open>update\<close> overwrite.\<close>

definition assign :: "metadata \<Rightarrow> metadata \<Rightarrow> metadata" where
  "assign md upd =
     \<lparr>provisioner_id = (case provisioner_id upd of None \<Rightarrow> provisioner_id md | Some v \<Rightarrow> Some v),
      worker_type = (case worker_type upd of None \<Rightarrow> worker_type md | Some v \<Rightarrow> Some v),
      last_used = (case last_used upd of None \<Rightarrow> last_used md | Some v \<Rightarrow> Some v)\<rparr>"

text \<open>What \<open>getMessages\<close> hands out for one message.\<close>

record delivered =
  messageText :: string
  messageId :: string
  popReceipt :: string

subsection \<open>Library functions\<close>

record lib =
  hashId :: "string \<Rightarrow> string"
    \<comment> \<open>SHA-256 digest, first 15 bytes, base-32, lower case\<close>
  encode :: "json \<Rightarrow> string"
    \<comment> \<open>\<open>Buffer.from(JSON.stringify(message)).toString('base64')\<close>\<close>
  decode :: "string \<Rightarrow> json option"
    \<comment> \<open>\<open>JSON.parse(Buffer.from(text, 'base64'))\<close>; \<open>None\<close> when it throws\<close>
  toJSON :: "time \<Rightarrow> string"
    \<comment> \<open>\<open>Date.prototype.toJSON\<close>\<close>
  parseDate :: "string \<Rightarrow> time option"
    \<comment> \<open>\<open>new Date(text).getTime()\<close>; \<open>None\<close> when the date is invalid\<close>

text \<open>\<open>new Date(x)\<close> for a string or \<open>undefined\<close>; \<open>None\<close> is an invalid date.\<close>

definition newDate :: "lib \<Rightarrow> string option \<Rightarrow> time option" where
  "newDate L x = (case x of None \<Rightarrow> None | Some text \<Rightarrow> parseDate L text)"

text \<open>
  Modelled from the spec: \<open>taskcluster.fromNow\<close> and \<open>taskcluster.fromNowJSON\<close> belong to
  the client library, which is not among the sources. The spec gives every visibility
  delay and TTL in seconds, so \<open>fromNow('n seconds')\<close> is the clock reading plus \<open>n\<close>
  seconds, and \<open>fromNowJSON()\<close> is the clock reading as a JSON date.
\<close>

definition fromNow :: "int \<Rightarrow> time \<Rightarrow> time" where
  "fromNow seconds now = now + seconds * 1000"

definition fromNowJSON :: "lib \<Rightarrow> time \<Rightarrow> string" where
  "fromNowJSON L now = toJSON L now"

subsection \<open>The queue client\<close>

text \<open>
  Every operation maps the client state to a result and a new client state.
  \<open>getMetadata\<close> yields \<open>{metadata, messageCount}\<close>, \<open>listQueues\<close> yields the
  \<open>{name, metadata}\<close> entries and \<open>nextMarker\<close>.
\<close>

record 'c client =
  createQueue :: "string \<Rightarrow> metadata option \<Rightarrow> 'c \<Rightarrow> (error + unit) \<times> 'c"
  getMetadata :: "string \<Rightarrow> 'c \<Rightarrow> (error + metadata option \<times> int) \<times> 'c"
  setMetadata :: "string \<Rightarrow> metadata \<Rightarrow> 'c \<Rightarrow> (error + unit) \<times> 'c"
  putMessage :: "string \<Rightarrow> string \<Rightarrow> int \<Rightarrow> int \<Rightarrow> time \<Rightarrow> 'c \<Rightarrow> (error + unit) \<times> 'c"
  getMessages :: "string \<Rightarrow> int \<Rightarrow> int \<Rightarrow> time \<Rightarrow> 'c \<Rightarrow> (error + delivered list) \<times> 'c"
  deleteMessage :: "string \<Rightarrow> string \<Rightarrow> string \<Rightarrow> 'c \<Rightarrow> (error + unit) \<times> 'c"
  updateMessage :: "string \<Rightarrow> string \<Rightarrow> string \<Rightarrow> string \<Rightarrow> int \<Rightarrow> time \<Rightarrow> 'c
                      \<Rightarrow> (error + unit) \<times> 'c"
  listQueues :: "string option \<Rightarrow> string \<Rightarrow> 'c
                      \<Rightarrow> (error + (string \<times> metadata option) list \<times> string option) \<times> 'c"
  deleteQueue :: "string \<Rightarrow> 'c \<Rightarrow> (error + unit) \<times> 'c"

subsection \<open>FakeQueueClient\<close>

text \<open>
  A stored message. \<open>storedReceipt\<close> is \<open>_popReceipt\<close>, undefined until the message is
  first handed out.
\<close>

record message =
  storedText :: string
  storedId :: string
  visibleAfter :: time
  expiresAfter :: time
  storedReceipt :: "string option"

text \<open>
  The two dictionaries of the client are association lists in insertion order.
  \<open>slugid.v4()\<close> is the sequence \<open>slug\<close> of identifiers, of which \<open>draws\<close> have been taken.
\<close>

record fake =
  fake_queues :: "(string \<times> message list) list"
  fake_metadata :: "(string \<times> metadata) list"
  draws :: nat

definition fake_reset :: "nat \<Rightarrow> fake" where
  "fake_reset d = \<lparr>fake_queues = [], fake_metadata = [], draws = d\<rparr>"

definition QueueNotFound :: error where
  "QueueNotFound = Error ''Queue not found'' (Some ''QueueNotFound'') (Some 404)"

definition fake_queue :: "string \<Rightarrow> fake \<Rightarrow> error + message list \<times> metadata option" where
  "fake_queue name c =
     (case map_of (fake_queues c) name of
        None \<Rightarrow> Inl QueueNotFound
      | Some queue \<Rightarrow> Inr (queue, map_of (fake_metadata c) name))"

definition fake_createQueue :: "string \<Rightarrow> metadata option \<Rightarrow> fake \<Rightarrow> (error + unit) \<times> fake" where
  "fake_createQueue name md c =
     (Inr (),
      c\<lparr>fake_queues := AList.update name [] (fake_queues c),
        fake_metadata :=
          AList.update name (case md of None \<Rightarrow> no_metadata | Some m \<Rightarrow> m) (fake_metadata c)\<rparr>)"

definition fake_getMetadata :: "string \<Rightarrow> fake \<Rightarrow> (error + metadata option \<times> int) \<times> fake" where
  "fake_getMetadata name c =
     (case fake_queue name c of
        Inl err \<Rightarrow> (Inl err, c)
      | Inr (queue, md) \<Rightarrow> (Inr (md, int (length queue)), c))"

definition fake_setMetadata :: "string \<Rightarrow> metadata \<Rightarrow> fake \<Rightarrow> (error + unit) \<times> fake" where
  "fake_setMetadata name upd c =
     (case fake_queue name c of
        Inl err \<Rightarrow> (Inl err, c)
      | Inr (queue, None) \<Rightarrow>
          (Inl (TypeError ''Cannot convert undefined or null to object''), c)
      | Inr (queue, Some md) \<Rightarrow>
          (Inr (), c\<lparr>fake_metadata := AList.update name (assign md upd) (fake_metadata c)\<rparr>))"

definition fake_putMessage ::
  "(nat \<Rightarrow> string) \<Rightarrow> string \<Rightarrow> string \<Rightarrow> int \<Rightarrow> int \<Rightarrow> time \<Rightarrow> fake \<Rightarrow> (error + unit) \<times> fake" where
  "fake_putMessage slug name text visibilityTimeout messageTTL now c =
     (case fake_queue name c of
        Inl err \<Rightarrow> (Inl err, c)
      | Inr (queue, md) \<Rightarrow>
          (Inr (),
           c\<lparr>fake_queues :=
               AList.update name
                 (queue @ [\<lparr>storedText = text, storedId = slug (draws c),
                            visibleAfter = fromNow visibilityTimeout now,
                            expiresAfter = fromNow messageTTL now,
                            storedReceipt = None\<rparr>])
                 (fake_queues c),
             draws := Suc (draws c)\<rparr>))"

text \<open>
  The loop of \<open>getMessages\<close> over the queue: \<open>rv\<close> is what has been collected, \<open>d\<close> the
  number of identifiers drawn. It yields the queue with the handed-out messages leased.
\<close>

fun fake_scan ::
  "(nat \<Rightarrow> string) \<Rightarrow> time \<Rightarrow> time \<Rightarrow> int \<Rightarrow> message list \<Rightarrow> delivered list \<Rightarrow> nat
     \<Rightarrow> message list \<times> delivered list \<times> nat" where
  "fake_scan slug now visibilityTime numberOfMessages [] rv d = ([], rv, d)"
| "fake_scan slug now visibilityTime numberOfMessages (msg # queue) rv d =
     (if now > visibleAfter msg \<and> now \<le> expiresAfter msg then
        (let msg' = msg\<lparr>visibleAfter := visibilityTime, storedReceipt := Some (slug d)\<rparr>;
             rv' = rv @ [\<lparr>messageText = storedText msg, messageId = storedId msg,
                          popReceipt = slug d\<rparr>]
         in if int (length rv') = numberOfMessages then (msg' # queue, rv', Suc d)
            else (case fake_scan slug now visibilityTime numberOfMessages queue rv' (Suc d) of
                    (queue', rv'', d') \<Rightarrow> (msg' # queue', rv'', d')))
      else (case fake_scan slug now visibilityTime numberOfMessages queue rv d of
              (queue', rv'', d') \<Rightarrow> (msg # queue', rv'', d')))"

definition fake_getMessages ::
  "(nat \<Rightarrow> string) \<Rightarrow> string \<Rightarrow> int \<Rightarrow> int \<Rightarrow> time \<Rightarrow> fake \<Rightarrow> (error + delivered list) \<times> fake" where
  "fake_getMessages slug name visibilityTimeout numberOfMessages now c =
     (case fake_queue name c of
        Inl err \<Rightarrow> (Inl err, c)
      | Inr (queue, md) \<Rightarrow>
          (case fake_scan slug now (fromNow visibilityTimeout now) numberOfMessages queue []
                  (draws c) of
             (queue', rv, d) \<Rightarrow>
               (Inr rv, c\<lparr>fake_queues := AList.update name queue' (fake_queues c), draws := d\<rparr>)))"

text \<open>
  \<open>deleteMessage\<close>: the filter throws at the first message with the given id and
  another receipt, before the queue is replaced.
\<close>

definition fake_deleteMessage :: "string \<Rightarrow> string \<Rightarrow> string \<Rightarrow> fake \<Rightarrow> (error + unit) \<times> fake" where
  "fake_deleteMessage name msgId receipt c =
     (case fake_queue name c of
        Inl err \<Rightarrow> (Inl err, c)
      | Inr (queue, md) \<Rightarrow>
          (if list_ex (\<lambda>m. storedId m = msgId \<and> storedReceipt m \<noteq> Some receipt) queue
           then (Inl (AssertionError ''popReceipt''), c)
           else (Inr (),
                 c\<lparr>fake_queues :=
                     AList.update name (filter (\<lambda>m. storedId m \<noteq> msgId) queue) (fake_queues c)\<rparr>)))"

text \<open>
  \<open>updateMessage\<close>: the messages are updated in place, in order, until the assertion
  on the receipt throws.
\<close>

fun fake_update ::
  "string \<Rightarrow> string \<Rightarrow> string \<Rightarrow> time \<Rightarrow> message list \<Rightarrow> error option \<times> message list" where
  "fake_update text msgId receipt visible [] = (None, [])"
| "fake_update text msgId receipt visible (msg # queue) =
     (if storedId msg \<noteq> msgId then
        (case fake_update text msgId receipt visible queue of
           (err, queue') \<Rightarrow> (err, msg # queue'))
      else if storedReceipt msg \<noteq> Some receipt then
        (Some (AssertionError ''popReceipt''), msg # queue)
      else
        (case fake_update text msgId receipt visible queue of
           (err, queue') \<Rightarrow> (err, msg\<lparr>storedText := text, visibleAfter := visible\<rparr> # queue')))"

definition fake_updateMessage ::
  "string \<Rightarrow> string \<Rightarrow> string \<Rightarrow> string \<Rightarrow> int \<Rightarrow> time \<Rightarrow> fake \<Rightarrow> (error + unit) \<times> fake" where
  "fake_updateMessage name text msgId receipt visibilityTimeout now c =
     (case fake_queue name c of
        Inl err \<Rightarrow> (Inl err, c)
      | Inr (queue, md) \<Rightarrow>
          (case fake_update text msgId receipt (fromNow visibilityTimeout now) queue of
             (err, queue') \<Rightarrow>
               (case err of None \<Rightarrow> Inr () | Some e \<Rightarrow> Inl e,
                c\<lparr>fake_queues := AList.update name queue' (fake_queues c)\<rparr>)))"

definition fake_listQueues ::
  "string option \<Rightarrow> string \<Rightarrow> fake
     \<Rightarrow> (error + (string \<times> metadata option) list \<times> string option) \<times> fake" where
  "fake_listQueues marker pfx c =
     (Inr (map (\<lambda>(name, queue). (name, map_of (fake_metadata c) name)) (fake_queues c), None), c)"

definition fake_deleteQueue :: "string \<Rightarrow> fake \<Rightarrow> (error + unit) \<times> fake" where
  "fake_deleteQueue name c =
     (Inr (),
      c\<lparr>fake_queues := AList.delete name (fake_queues c),
        fake_metadata := AList.delete name (fake_metadata c)\<rparr>)"

definition FakeQueueClient :: "(nat \<Rightarrow> string) \<Rightarrow> fake client" where
  "FakeQueueClient slug =
     \<lparr>createQueue = fake_createQueue,
      getMetadata = fake_getMetadata,
      setMetadata = fake_setMetadata,
      putMessage = fake_putMessage slug,
      getMessages = fake_getMessages slug,
      deleteMessage = fake_deleteMessage,
      updateMessage = fake_updateMessage,
      listQueues = fake_listQueues,
      deleteQueue = fake_deleteQueue\<rparr>"

subsection \<open>QueueService: state and helpers\<close>

datatype call =
    CreateQueue string "metadata option"
  | GetMetadata string
  | SetMetadata string metadata
  | PutMessage string string int int
  | GetMessages string int int
  | DeleteMessage string string string
  | UpdateMessage string string string string int
  | ListQueues "string option" string
  | DeleteQueue string

record cache_entry =
  count :: "error + int"
  lastUpdated :: time

record 'c service =
  prefix :: string
  client :: 'c
  queues :: "string \<rightharpoonup> (string \<times> string) list"
  claimQueue :: string
  claimQueueReady :: bool
  resolvedQueue :: string
  resolvedQueueReady :: bool
  deadlineQueue :: string
  deadlineDelay :: int
  deadlineQueueReady :: bool
  countPendingCache :: "string \<rightharpoonup> cache_entry"
  reported :: "error list"
  calls :: "call list"

text \<open>A call of a client operation: the client state is replaced and the call recorded.\<close>

definition invoke ::
  "call \<Rightarrow> ('c \<Rightarrow> (error + 'a) \<times> 'c) \<Rightarrow> 'c service \<Rightarrow> (error + 'a) \<times> 'c service" where
  "invoke ev operation s =
     (case operation (client s) of (r, c) \<Rightarrow> (r, s\<lparr>client := c, calls := calls s @ [ev]\<rparr>))"

text \<open>\<open>Promise.all\<close> over callbacks that are run in list order.\<close>

fun promiseAll :: "('s \<Rightarrow> (error + 'a) \<times> 's) list \<Rightarrow> 's \<Rightarrow> (error + 'a list) \<times> 's" where
  "promiseAll [] s = (Inr [], s)"
| "promiseAll (p # ps) s =
     (case p s of (r, s1) \<Rightarrow>
        (case promiseAll ps s1 of (rs, s2) \<Rightarrow>
           (case r of
              Inl err \<Rightarrow> Inl err
            | Inr x \<Rightarrow> (case rs of Inl err \<Rightarrow> Inl err | Inr xs \<Rightarrow> Inr (x # xs)),
            s2)))"

text \<open>\<open>secondsTo\<close>: \<open>Math.ceil\<close> of the difference in seconds, at least 1.\<close>

definition secondsTo :: "time \<Rightarrow> time \<Rightarrow> int" where
  "secondsTo target relativeTo =
     (let delta = - ((relativeTo - target) div 1000) in max delta 1)"

definition PRIORITY_TO_CONSTANT :: "(string \<times> string) list" where
  "PRIORITY_TO_CONSTANT =
     [(''highest'', ''7''), (''very-high'', ''6''), (''high'', ''5''), (''medium'', ''4''),
      (''low'', ''3''), (''very-low'', ''2''), (''lowest'', ''1'')]"


text \<open>
  \<open>queueNames[priority]\<close>: an absent key gives \<open>undefined\<close>, which reads as the text
  \<open>undefined\<close> where a queue name is expected.
\<close>

definition lookup :: "(string \<times> string) list \<Rightarrow> string \<Rightarrow> string" where
  "lookup queueNames priority =
     (case map_of queueNames priority of None \<Rightarrow> ''undefined'' | Some name \<Rightarrow> name)"

definition alnum :: "char \<Rightarrow> bool" where
  "alnum c = (c \<in> set ''ABCDEFGHIJKLMNOPQRSTUVWXYZabcdefghijklmnopqrstuvwxyz0123456789'')"

text \<open>The test \<open>/^[A-Za-z0-9_-]{1,38}$/\<close>.\<close>

definition isIdentifier :: "string \<Rightarrow> bool" where
  "isIdentifier x =
     (1 \<le> length x \<and> length x \<le> 38 \<and>
      list_all (\<lambda>c. alnum c \<or> c = CHR ''_'' \<or> c = CHR ''-'') x)"

text \<open>The test \<open>/^[A-Za-z0-9][A-Za-z0-9-]*$/\<close>.\<close>

definition validPrefix :: "string \<Rightarrow> bool" where
  "validPrefix x =
     (case x of [] \<Rightarrow> False
      | c # cs \<Rightarrow> alnum c \<and> list_all (\<lambda>c. alnum c \<or> c = CHR ''-'') cs)"

text \<open>
  The constructor. The options are its arguments, \<open>deadlineDelay\<close> being optional; the
  client state is handed in.
\<close>

definition QueueService ::
  "string \<Rightarrow> string \<Rightarrow> string \<Rightarrow> string \<Rightarrow> int option \<Rightarrow> 'c \<Rightarrow> error + 'c service" where
  "QueueService pfx claimQ resolvedQ deadlineQ delay c =
     (if \<not> validPrefix pfx then Inl (AssertionError ''Invalid prefix'')
      else if length pfx > 6 then Inl (AssertionError ''Prefix is too long'')
      else if resolvedQ = [] then Inl (AssertionError ''A resolvedQueue name must be given'')
      else if claimQ = [] then Inl (AssertionError ''A claimQueue name must be given'')
      else if deadlineQ = [] then Inl (AssertionError ''A deadlineQueue name must be given'')
      else Inr \<lparr>prefix = pfx, client = c, queues = Map.empty,
                claimQueue = claimQ, claimQueueReady = False,
                resolvedQueue = resolvedQ, resolvedQueueReady = False,
                deadlineQueue = deadlineQ,
                deadlineDelay = (case delay of None \<Rightarrow> 10 * 60 * 1000 | Some d \<Rightarrow> d),
                deadlineQueueReady = False,
                countPendingCache = Map.empty, reported = [], calls = []\<rparr>)"

subsection \<open>Messages\<close>

text \<open>
  The bound functions \<open>remove\<close> and \<open>release\<close> of a received message are the client
  method with the arguments it is bound to; \<open>run\<close> calls one.
\<close>

datatype callback =
    BoundDelete string string string
  | BoundUpdate string string string string int

record received =
  payload :: json
  remove :: callback
  release :: callback

fun run :: "'c client \<Rightarrow> callback \<Rightarrow> time \<Rightarrow> 'c service \<Rightarrow> (error + unit) \<times> 'c service" where
  "run C (BoundDelete queue msgId receipt) now s =
     invoke (DeleteMessage queue msgId receipt) (deleteMessage C queue msgId receipt) s"
| "run C (BoundUpdate queue text msgId receipt visibilityTimeout) now s =
     invoke (UpdateMessage queue text msgId receipt visibilityTimeout)
       (updateMessage C queue text msgId receipt visibilityTimeout now) s"

definition putMessage' ::
  "'c client \<Rightarrow> lib \<Rightarrow> string \<Rightarrow> json \<Rightarrow> int \<Rightarrow> int \<Rightarrow> time \<Rightarrow> 'c service
     \<Rightarrow> (error + unit) \<times> 'c service" where
  "putMessage' C L queue msg visibility ttl now s =
     (let text = encode L msg
      in invoke (PutMessage queue text visibility ttl)
           (putMessage C queue text visibility ttl now) s)"

definition receive :: "lib \<Rightarrow> string \<Rightarrow> delivered \<Rightarrow> received option" where
  "receive L queue msg =
     (case decode L (messageText msg) of
        None \<Rightarrow> None
      | Some p \<Rightarrow>
          Some \<lparr>payload = p,
                remove = BoundDelete queue (messageId msg) (popReceipt msg),
                release = BoundUpdate queue (messageText msg) (messageId msg) (popReceipt msg) 0\<rparr>)"

definition getMessages' ::
  "'c client \<Rightarrow> lib \<Rightarrow> string \<Rightarrow> int \<Rightarrow> int \<Rightarrow> time \<Rightarrow> 'c service
     \<Rightarrow> (error + received list) \<times> 'c service" where
  "getMessages' C L queue visibility cnt now s =
     (case invoke (GetMessages queue visibility cnt)
             (getMessages C queue visibility cnt now) s of
        (Inl err, s1) \<Rightarrow> (Inl err, s1)
      | (Inr messages, s1) \<Rightarrow>
          (case those (map (receive L queue) messages) of
             None \<Rightarrow> (Inl (SyntaxError ''Unexpected token''), s1)
           | Some ms \<Rightarrow> (Inr ms, s1)))"


subsection \<open>The claim, resolved and deadline queues\<close>







subsection \<open>The pending queues\<close>

text \<open>
  \<open>_ensureQueueAndMetadata\<close>. Reading a property of an undefined \<open>metadata\<close> throws
  inside the \<open>try\<close> block. The promise of \<open>setMetadata\<close> is returned without being
  awaited, so its rejection does not pass through the \<open>catch\<close> block.
\<close>

definition freshMetadata :: "lib \<Rightarrow> string \<Rightarrow> string \<Rightarrow> time \<Rightarrow> metadata" where
  "freshMetadata L provisionerId workerType now =
     \<lparr>provisioner_id = Some provisionerId, worker_type = Some workerType,
      last_used = Some (fromNowJSON L now)\<rparr>"

definition ensureQueueAndMetadata ::
  "'c client \<Rightarrow> lib \<Rightarrow> string \<Rightarrow> string \<Rightarrow> string \<Rightarrow> time \<Rightarrow> 'c service
     \<Rightarrow> (error + unit) \<times> 'c service" where
  "ensureQueueAndMetadata C L queue provisionerId workerType now s =
     (let catch = (\<lambda>err s1.
            if code err \<noteq> Some ''QueueNotFound'' \<and> statusCode err \<noteq> Some 404
            then (Inl err, s1)
            else (case invoke (CreateQueue queue (Some (freshMetadata L provisionerId workerType now)))
                         (createQueue C queue (Some (freshMetadata L provisionerId workerType now)))
                         s1 of
                    (Inr u, s2) \<Rightarrow> (Inr (), s2)
                  | (Inl err2, s2) \<Rightarrow>
                      if code err2 \<noteq> Some ''QueueAlreadyExists''
                      then (Inl err2, s2\<lparr>reported := reported s2 @ [err2]\<rparr>)
                      else (Inr (), s2)))
      in case invoke (GetMetadata queue) (getMetadata C queue) s of
           (Inl err, s1) \<Rightarrow> catch err s1
         | (Inr (None, messageCount), s1) \<Rightarrow>
             catch (TypeError ''Cannot read properties of undefined'') s1
         | (Inr (Some md, messageCount), s1) \<Rightarrow>
             (case newDate L (last_used md) of
                None \<Rightarrow>
                  invoke (SetMetadata queue (freshMetadata L provisionerId workerType now))
                    (setMetadata C queue (freshMetadata L provisionerId workerType now)) s1
              | Some lastUsed \<Rightarrow>
                  if provisioner_id md = Some provisionerId
                     \<and> worker_type md = Some workerType
                     \<and> lastUsed > now - 23 * 60 * 60 * 1000
                  then (Inr (), s1)
                  else invoke (SetMetadata queue (freshMetadata L provisionerId workerType now))
                         (setMetadata C queue (freshMetadata L provisionerId workerType now)) s1))"

text \<open>
  The mapping \<open>names\<close> from priority to queue name that \<open>ensurePendingQueue\<close> builds:
  the prefix, the hashes of the two identifiers and the constant of the priority.
\<close>

definition pendingQueueNames :: "lib \<Rightarrow> string \<Rightarrow> string \<Rightarrow> string \<Rightarrow> (string \<times> string) list" where
  "pendingQueueNames L pfx provisionerId workerType =
     (let namePrefix = pfx @ ''-'' @ hashId L provisionerId @ ''-'' @ hashId L workerType @ ''-''
      in map (\<lambda>(priority, c). (priority, namePrefix @ c)) PRIORITY_TO_CONSTANT)"

definition ensurePendingQueue ::
  "'c client \<Rightarrow> lib \<Rightarrow> string \<Rightarrow> string \<Rightarrow> time \<Rightarrow> 'c service
     \<Rightarrow> (error + (string \<times> string) list) \<times> 'c service" where
  "ensurePendingQueue C L provisionerId workerType now s =
     (let id = provisionerId @ ''/'' @ workerType
      in case queues s id of
           Some names \<Rightarrow> (Inr names, s)
         | None \<Rightarrow>
             if \<not> isIdentifier provisionerId
             then (Inl (AssertionError ''Expected provisionerId to be an identifier''), s)
             else if \<not> isIdentifier workerType
             then (Inl (AssertionError ''Expected workerType to be an identifier''), s)
             else
               (let names = pendingQueueNames L (prefix s) provisionerId workerType
                in case promiseAll
                          (map (\<lambda>(priority, queueName).
                                  ensureQueueAndMetadata C L queueName provisionerId workerType now)
                             names) s of
                     (Inl err, s1) \<Rightarrow>
                       (Inl err,
                        s1\<lparr>reported := reported s1 @ [err], queues := (queues s1)(id := None)\<rparr>)
                   | (Inr us, s1) \<Rightarrow>
                       (Inr names, s1\<lparr>queues := (queues s1)(id \<mapsto> names)\<rparr>)))"

subsection \<open>Removing unused worker queues\<close>







subsection \<open>Counting pending messages\<close>

text \<open>
  \<open>sumMessageCounts\<close> is the asynchronous function that \<open>countPendingMessages\<close> starts
  for a refresh. In \<open>countPendingMessages\<close> the entry is stored first; when it is more than 20 seconds
  old, \<open>lastUpdated\<close> and \<open>count\<close> are replaced, and the value awaited and returned is
  the \<open>count\<close> of the entry after that.
\<close>

definition sumMessageCounts ::
  "'c client \<Rightarrow> lib \<Rightarrow> string \<Rightarrow> string \<Rightarrow> time \<Rightarrow> 'c service \<Rightarrow> (error + int) \<times> 'c service" where
  "sumMessageCounts C L provisionerId workerType now s =
     (case ensurePendingQueue C L provisionerId workerType now s of
        (Inl err, s1) \<Rightarrow> (Inl err, s1)
      | (Inr queueNames, s1) \<Rightarrow>
          (case promiseAll
                  (map (\<lambda>(priority, queueName).
                          invoke (GetMetadata queueName) (getMetadata C queueName))
                     queueNames) s1 of
             (Inl err, s2) \<Rightarrow> (Inl err, s2)
           | (Inr results, s2) \<Rightarrow> (Inr (sum_list (map snd results)), s2)))"

definition countPendingMessages ::
  "'c client \<Rightarrow> lib \<Rightarrow> string \<Rightarrow> string \<Rightarrow> time \<Rightarrow> 'c service \<Rightarrow> (error + int) \<times> 'c service" where
  "countPendingMessages C L provisionerId workerType now s =
     (let cacheKey = provisionerId @ ''/'' @ workerType;
          entry = (case countPendingCache s cacheKey of
                     None \<Rightarrow> \<lparr>count = Inr 0, lastUpdated = 0\<rparr>
                   | Some e \<Rightarrow> e);
          s0 = s\<lparr>countPendingCache := (countPendingCache s)(cacheKey \<mapsto> entry)\<rparr>
      in if now - lastUpdated entry > 20 * 1000
         then (case sumMessageCounts C L provisionerId workerType now s0 of
                 (r, s1) \<Rightarrow>
                   (r, s1\<lparr>countPendingCache :=
                            (countPendingCache s1)(cacheKey \<mapsto> \<lparr>count = r, lastUpdated = now\<rparr>)\<rparr>))
         else (count entry, s0))"

subsection \<open>Pending messages\<close>

record task =
  taskId :: string
  provisionerId :: string
  workerType :: string
  deadline :: time
  priority :: string

text \<open>\<open>hintId\<close> is the identifier that \<open>slugid.v4()\<close> gives in this call.\<close>

definition putPendingMessage ::
  "'c client \<Rightarrow> lib \<Rightarrow> task \<Rightarrow> int \<Rightarrow> string \<Rightarrow> time \<Rightarrow> 'c service
     \<Rightarrow> (error + unit) \<times> 'c service" where
  "putPendingMessage C L task runId hintId now s =
     (case ensurePendingQueue C L (provisionerId task) (workerType task) now s of
        (Inl err, s1) \<Rightarrow> (Inl err, s1)
      | (Inr queueNames, s1) \<Rightarrow>
          (let timeToDeadline = secondsTo (task.deadline task) now
           in if timeToDeadline = 0 then (Inr (), s1)
              else putMessage' C L (lookup queueNames (priority task))
                     (JObj [(''taskId'', JStr (task.taskId task)), (''runId'', JNum runId),
                            (''hintId'', JStr hintId)])
                     0 timeToDeadline now s1))"

subsection \<open>Polling\<close>

record claim =
  taskId :: "json option"
  runId :: "json option"
  takenUntil :: "time option"
  remove :: callback


record expired =
  taskId :: "json option"
  taskGroupId :: "json option"
  schedulerId :: "json option"
  deadline :: "time option"
  remove :: callback


record pending =
  taskId :: "json option"
  runId :: "json option"
  hintId :: "json option"
  remove :: callback
  release :: callback



subsection \<open>Observations on the recorded calls\<close>

fun isPut :: "call \<Rightarrow> bool" where
  "isPut (PutMessage queue text visibility ttl) = True"
| "isPut (CreateQueue queue md) = False"
| "isPut (GetMetadata queue) = False"
| "isPut (SetMetadata queue md) = False"
| "isPut (GetMessages queue visibility cnt) = False"
| "isPut (DeleteMessage queue msgId receipt) = False"
| "isPut (UpdateMessage queue text msgId receipt visibility) = False"
| "isPut (ListQueues marker pfx) = False"
| "isPut (DeleteQueue queue) = False"

text \<open>The messages published so far: the \<open>putMessage\<close> calls made.\<close>

definition published :: "'c service \<Rightarrow> call list" where
  "published s = filter isPut (calls s)"








text \<open>
  The identifier drawn as number \<open>k\<close> has been drawn, and every message of queue \<open>q\<close>
  that bears it satisfies \<open>P\<close>. With \<open>hiddenUntil\<close> such a message is invisible up to
  time \<open>v\<close> and has never been handed out; with \<open>absent\<close> there is no such message.
\<close>

definition guarded :: "(nat \<Rightarrow> string) \<Rightarrow> string \<Rightarrow> nat \<Rightarrow> (message \<Rightarrow> bool) \<Rightarrow> fake \<Rightarrow> bool" where
  "guarded slug q k P c =
     (k < draws c \<and>
      (case map_of (fake_queues c) q of
         None \<Rightarrow> True
       | Some queue \<Rightarrow> list_all (\<lambda>msg. storedId msg \<noteq> slug k \<or> P msg) queue))"







subsection \<open>Sample values\<close>

text \<open>
  The library functions at the arguments of the examples in this theory; elsewhere the
  table holds a placeholder. The identifiers of \<open>slugid\<close> are \<open>id0\<close>, \<open>id1\<close>, and so on.
\<close>

definition sampleLib :: lib where
  "sampleLib =
     \<lparr>hashId = (\<lambda>x. if x = ''prov1'' then ''dsfem7j3kwke52h6i264tsen''
                     else if x = ''wt1'' then ''2frh3ug6njr7dwbq6vv4y5v6'' else []),
      encode = (\<lambda>v.
         if v = JObj [(''taskId'', JStr ''t1''), (''taskGroupId'', JStr ''g1''),
                      (''schedulerId'', JStr ''s1''), (''resolution'', JStr ''completed'')]
         then ''eyJ0YXNrSWQiOiJ0MSIsInRhc2tHcm91cElkIjoiZzEiLCJzY2hlZHVsZXJJZCI6InMxIiwicmVzb2x1dGlvbiI6ImNvbXBsZXRlZCJ9''
         else if v = JObj [(''taskId'', JStr ''t1''), (''runId'', JNum 0), (''hintId'', JStr ''h1'')]
         then ''eyJ0YXNrSWQiOiJ0MSIsInJ1bklkIjowLCJoaW50SWQiOiJoMSJ9''
         else if v = JObj [(''taskId'', JStr ''t1''), (''runId'', JNum 0),
                           (''takenUntil'', JStr ''1970-01-01T00:00:05.000Z'')]
         then ''eyJ0YXNrSWQiOiJ0MSIsInJ1bklkIjowLCJ0YWtlblVudGlsIjoiMTk3MC0wMS0wMVQwMDowMDowNS4wMDBaIn0=''
         else if v = JObj [(''taskId'', JStr ''t1''), (''taskGroupId'', JStr ''g1''),
                           (''schedulerId'', JStr ''s1''),
                           (''deadline'', JStr ''1970-01-01T00:00:05.000Z'')]
         then ''eyJ0YXNrSWQiOiJ0MSIsInRhc2tHcm91cElkIjoiZzEiLCJzY2hlZHVsZXJJZCI6InMxIiwiZGVhZGxpbmUiOiIxOTcwLTAxLTAxVDAwOjAwOjA1LjAwMFoifQ==''
         else []),
      decode = (\<lambda>text.
         if text = ''eyJ0YXNrSWQiOiJ0MSIsInJ1bklkIjowLCJoaW50SWQiOiJoMSJ9''
         then Some (JObj [(''taskId'', JStr ''t1''), (''runId'', JNum 0), (''hintId'', JStr ''h1'')])
         else if text = ''eyJ0YXNrSWQiOiJ0MSIsInJ1bklkIjowLCJ0YWtlblVudGlsIjoiMTk3MC0wMS0wMVQwMDowMDowNS4wMDBaIn0=''
         then Some (JObj [(''taskId'', JStr ''t1''), (''runId'', JNum 0),
                          (''takenUntil'', JStr ''1970-01-01T00:00:05.000Z'')])
         else if text = ''eyJ0YXNrSWQiOiJ0MSIsInRhc2tHcm91cElkIjoiZzEiLCJzY2hlZHVsZXJJZCI6InMxIiwiZGVhZGxpbmUiOiIxOTcwLTAxLTAxVDAwOjAwOjA1LjAwMFoifQ==''
         then Some (JObj [(''taskId'', JStr ''t1''), (''taskGroupId'', JStr ''g1''),
                          (''schedulerId'', JStr ''s1''),
                          (''deadline'', JStr ''1970-01-01T00:00:05.000Z'')])
         else None),
      toJSON = (\<lambda>t. if t = 0 then ''1970-01-01T00:00:00.000Z''
                     else if t = 1000 then ''1970-01-01T00:00:01.000Z''
                     else if t = 5000 then ''1970-01-01T00:00:05.000Z''
                     else if t = 864000000 then ''1970-01-11T00:00:00.000Z''
                     else []),
      parseDate = (\<lambda>text. if text = ''1970-01-01T00:00:00.000Z'' then Some 0
                     else if text = ''1970-01-01T00:00:01.000Z'' then Some 1000
                     else if text = ''1970-01-01T00:00:05.000Z'' then Some 5000
                     else if text = ''1970-01-11T00:00:00.000Z'' then Some 864000000
                     else None)\<rparr>"

fun sampleSlug :: "nat \<Rightarrow> string" where
  "sampleSlug 0 = ''id0''"
| "sampleSlug (Suc 0) = ''id1''"
| "sampleSlug (Suc (Suc 0)) = ''id2''"
| "sampleSlug (Suc (Suc (Suc n))) = ''id'' @ replicate (Suc (Suc (Suc n))) CHR ''x''"

text \<open>A service over the in-memory client, as the constructor leaves it.\<close>

definition sampleService :: "fake service" where
  "sampleService =
     \<lparr>prefix = ''q'', client = fake_reset 0, queues = Map.empty,
      claimQueue = ''claim'', claimQueueReady = False,
      resolvedQueue = ''resolved'', resolvedQueueReady = False,
      deadlineQueue = ''deadline'', deadlineDelay = 10 * 60 * 1000,
      deadlineQueueReady = False,
      countPendingCache = Map.empty, reported = [], calls = []\<rparr>"

text \<open>
  The queue of priority \<open>medium\<close> for \<open>prov1\<close> and \<open>wt1\<close>, and a service whose client
  holds this queue, empty, with meta-data last written at time 0.
\<close>

definition sampleQueue :: string where
  "sampleQueue = ''q-dsfem7j3kwke52h6i264tsen-2frh3ug6njr7dwbq6vv4y5v6-4''"

definition usedService :: "fake service" where
  "usedService =
     sampleService\<lparr>client :=
       \<lparr>fake_queues = [(sampleQueue, [])],
        fake_metadata =
          [(sampleQueue, \<lparr>provisioner_id = Some ''prov1'', worker_type = Some ''wt1'',
                          last_used = Some ''1970-01-01T00:00:00.000Z''\<rparr>)],
        draws = 0\<rparr>\<rparr>"


text \<open>
  A task of \<open>prov1\<close> and \<open>wt1\<close> whose deadline is time 0, and the queue names of its
  provisioner and worker type under the prefix \<open>q\<close>.
\<close>

definition sampleTask :: task where
  "sampleTask = \<lparr>task.taskId = ''t1'', provisionerId = ''prov1'', workerType = ''wt1'',
                 task.deadline = 0, priority = ''medium''\<rparr>"

definition sampleNames :: "(string \<times> string) list" where
  "sampleNames =
     [(''highest'', ''q-dsfem7j3kwke52h6i264tsen-2frh3ug6njr7dwbq6vv4y5v6-7''),
      (''very-high'', ''q-dsfem7j3kwke52h6i264tsen-2frh3ug6njr7dwbq6vv4y5v6-6''),
      (''high'', ''q-dsfem7j3kwke52h6i264tsen-2frh3ug6njr7dwbq6vv4y5v6-5''),
      (''medium'', ''q-dsfem7j3kwke52h6i264tsen-2frh3ug6njr7dwbq6vv4y5v6-4''),
      (''low'', ''q-dsfem7j3kwke52h6i264tsen-2frh3ug6njr7dwbq6vv4y5v6-3''),
      (''very-low'', ''q-dsfem7j3kwke52h6i264tsen-2frh3ug6njr7dwbq6vv4y5v6-2''),
      (''lowest'', ''q-dsfem7j3kwke52h6i264tsen-2frh3ug6njr7dwbq6vv4y5v6-1'')]"








text \<open>
  The service after the pending messages of \<open>prov1\<close> and \<open>wt1\<close> have been counted at
  day 10, which gives 0, and a pending message has been published one second later.
\<close>

definition countedService :: "fake service" where
  "countedService =
     snd (putPendingMessage (FakeQueueClient sampleSlug) sampleLib
            (sampleTask\<lparr>task.deadline := 864005000\<rparr>) 0 ''h1'' 864001000
            (snd (countPendingMessages (FakeQueueClient sampleSlug) sampleLib ''prov1'' ''wt1''
                    864000000 sampleService)))"






text \<open>
  The payload of a pending message for run 0 of task \<open>t1\<close>; the service after this
  payload has been put on the sample queue at 1 second, with a TTL of 600 seconds, and
  fetched at 1.5 seconds with a lease of 300 seconds; and the message that this fetch
  returns.
\<close>

definition sampleHint :: json where
  "sampleHint = JObj [(''taskId'', JStr ''t1''), (''runId'', JNum 0), (''hintId'', JStr ''h1'')]"

definition fetchedService :: "fake service" where
  "fetchedService =
     snd (getMessages' (FakeQueueClient sampleSlug) sampleLib sampleQueue 300 1 1500
            (snd (putMessage' (FakeQueueClient sampleSlug) sampleLib sampleQueue sampleHint
                    0 600 1000 usedService)))"

definition sampleReceived :: received where
  "sampleReceived =
     \<lparr>payload = sampleHint,
      remove = BoundDelete sampleQueue ''id0'' ''id1'',
      release = BoundUpdate sampleQueue ''eyJ0YXNrSWQiOiJ0MSIsInJ1bklkIjowLCJoaW50SWQiOiJoMSJ9''
                  ''id0'' ''id1'' 0\<rparr>"

section \<open>Properties\<close>

subsection \<open>Recorded calls\<close>







subsection \<open>The in-memory client: creating a queue\<close>

text \<open>
  C10: \<open>createQueue\<close> of the in-memory client never fails, so it never reports
  \<open>QueueAlreadyExists\<close>, whatever the state: afterwards the queue of that name is
  empty and its meta-data is the one given (or empty). A queue that existed before is
  replaced and its messages are gone.
\<close>

theorem fake_createQueue_replaces:
  "fst (createQueue (FakeQueueClient slug) name md c) = Inr () \<and>
   (\<forall>err. fst (createQueue (FakeQueueClient slug) name md c) \<noteq> Inl err) \<and>
   map_of (fake_queues (snd (createQueue (FakeQueueClient slug) name md c))) name = Some [] \<and>
   map_of (fake_metadata (snd (createQueue (FakeQueueClient slug) name md c))) name =
     Some (case md of None \<Rightarrow> no_metadata | Some m \<Rightarrow> m) \<and>
   fst (getMetadata (FakeQueueClient slug) name
          (snd (createQueue (FakeQueueClient slug) name md c))) =
     Inr (Some (case md of None \<Rightarrow> no_metadata | Some m \<Rightarrow> m), 0)"
  by (simp add: FakeQueueClient_def fake_createQueue_def fake_getMetadata_def fake_queue_def
      update_conv')

text \<open>
  A queue that holds one message is created again: the creation succeeds and the
  message is gone.
\<close>

theorem fake_createQueue_replaces_witness:
  "fst (getMetadata (FakeQueueClient sampleSlug) ''claim''
          (snd (putMessage (FakeQueueClient sampleSlug) ''claim'' ''e30='' 0 60 1000
             (snd (createQueue (FakeQueueClient sampleSlug) ''claim'' None (fake_reset 0))))))
     = Inr (Some no_metadata, 1) \<and>
   createQueue (FakeQueueClient sampleSlug) ''claim'' None
     (snd (putMessage (FakeQueueClient sampleSlug) ''claim'' ''e30='' 0 60 1000
        (snd (createQueue (FakeQueueClient sampleSlug) ''claim'' None (fake_reset 0)))))
     = (Inr (), \<lparr>fake_queues = [(''claim'', [])], fake_metadata = [(''claim'', no_metadata)],
                  draws = 1\<rparr>)"
proof -
  let ?F = "FakeQueueClient sampleSlug"
  let ?c = "snd (putMessage ?F ''claim'' ''e30='' 0 60 1000
                   (snd (createQueue ?F ''claim'' None (fake_reset 0))))"
  have c: "?c = \<lparr>fake_queues = [(''claim'', [\<lparr>storedText = ''e30='', storedId = ''id0'',
                     visibleAfter = 1000, expiresAfter = 61000, storedReceipt = None\<rparr>])],
                 fake_metadata = [(''claim'', no_metadata)], draws = 1\<rparr>"
    by (simp add: FakeQueueClient_def fake_createQueue_def fake_putMessage_def fake_queue_def
        fake_reset_def fromNow_def)
  have before: "fst (getMetadata ?F ''claim'' ?c) = Inr (Some no_metadata, 1)"
    unfolding c by (simp add: FakeQueueClient_def fake_getMetadata_def fake_queue_def)
  have after: "fst (createQueue ?F ''claim'' None ?c) = Inr ()"
    using fake_createQueue_replaces [of sampleSlug "''claim''" None ?c] by blast
  have state: "snd (createQueue ?F ''claim'' None ?c) =
      \<lparr>fake_queues = [(''claim'', [])], fake_metadata = [(''claim'', no_metadata)], draws = 1\<rparr>"
    unfolding c by (simp add: FakeQueueClient_def fake_createQueue_def)
  show ?thesis using before after state by (simp add: prod_eq_iff)
qed

subsection \<open>Ensuring a queue and its meta-data\<close>




lemma published_promiseAll:
  "(\<And>p s r s'. p \<in> set ps \<Longrightarrow> p s = (r, s') \<Longrightarrow> published s' = published s)
     \<Longrightarrow> promiseAll ps s = (r, s') \<Longrightarrow> published s' = published s"
proof (induction ps arbitrary: s r s')
  case Nil
  then show ?case by simp
next
  case (Cons p ps)
  obtain r1 s1 where p: "p s = (r1, s1)" by (cases "p s")
  obtain r2 s2 where ps: "promiseAll ps s1 = (r2, s2)" by (cases "promiseAll ps s1")
  have a: "published s1 = published s"
    by (rule Cons.prems(1)[of p s r1 s1]) (simp_all add: p)
  have b: "published s2 = published s1"
  proof (rule Cons.IH[of s1 r2 s2])
    show "promiseAll ps s1 = (r2, s2)" by (rule ps)
  next
    fix q t r t' assume "q \<in> set ps" "q t = (r, t')"
    then show "published t' = published t"
      using Cons.prems(1)[of q t r t'] by simp
  qed
  from Cons.prems(2) p ps have "s' = s2" by simp
  with a b show ?case by simp
qed

lemma published_ensureQueueAndMetadata:
  "ensureQueueAndMetadata C L queue pid wt now s = (r, s') \<Longrightarrow> published s' = published s"
  by (auto simp: ensureQueueAndMetadata_def invoke_def published_def Let_def
      split: prod.splits sum.splits option.splits if_splits)

lemma published_ensurePendingQueue:
  assumes "ensurePendingQueue C L pid wt now s = (r, s')"
  shows "published s' = published s"
proof (cases "queues s (pid @ ''/'' @ wt)")
  case (Some names)
  with assms show ?thesis by (simp add: ensurePendingQueue_def)
next
  case None
  show ?thesis
  proof (cases "isIdentifier pid \<and> isIdentifier wt")
    case False
    with None assms show ?thesis
      by (auto simp: ensurePendingQueue_def Let_def split: if_splits)
  next
    case True
    let ?names = "pendingQueueNames L (prefix s) pid wt"
    let ?ps = "map (\<lambda>(priority, queueName). ensureQueueAndMetadata C L queueName pid wt now) ?names"
    obtain r1 s1 where all: "promiseAll ?ps s = (r1, s1)" by (cases "promiseAll ?ps s")
    have "published s1 = published s"
      by (rule published_promiseAll[OF _ all]) (auto dest: published_ensureQueueAndMetadata)
    moreover from None True assms all have "published s' = published s1"
      by (cases r1) (auto simp: ensurePendingQueue_def Let_def published_def)
    ultimately show ?thesis by simp
  qed
qed

lemma secondsTo_past: "target \<le> now \<Longrightarrow> secondsTo target now = 1"
  by (simp add: secondsTo_def Let_def max_def)

subsection \<open>Pending messages of a task past its deadline\<close>

text \<open>
  C1: the claim is that \<open>putPendingMessage\<close> publishes nothing for a task whose deadline
  is at or before the current time. The code tests \<open>timeToDeadline === 0\<close> for this, but
  \<open>secondsTo\<close> is never below 1. What the code does instead: once the pending queues are
  ensured, it makes one \<open>putMessage\<close> call on the queue of the task's priority, with
  visibility 0 and a TTL of 1 second.
\<close>

theorem putPendingMessage_past_deadline:
  assumes "task.deadline t \<le> now"
    and "fst (ensurePendingQueue C L (provisionerId t) (workerType t) now s) = Inr queueNames"
  shows "published (snd (putPendingMessage C L t rid hint now s)) =
           published s @
             [PutMessage (lookup queueNames (priority t))
                (encode L (JObj [(''taskId'', JStr (task.taskId t)), (''runId'', JNum rid),
                                 (''hintId'', JStr hint)]))
                0 1]"
proof -
  obtain s1 where ens:
    "ensurePendingQueue C L (provisionerId t) (workerType t) now s = (Inr queueNames, s1)"
    using assms(2) by (cases "ensurePendingQueue C L (provisionerId t) (workerType t) now s") simp
  have "published s1 = published s" by (rule published_ensurePendingQueue[OF ens])
  moreover have "secondsTo (task.deadline t) now = 1" by (rule secondsTo_past[OF assms(1)])
  ultimately show ?thesis using ens
    by (simp add: putPendingMessage_def Let_def putMessage'_def invoke_def published_def
        split: prod.splits)
qed


lemma sample_ensurePendingQueue:
  "fst (ensurePendingQueue (FakeQueueClient sampleSlug) sampleLib ''prov1'' ''wt1'' 1000
          sampleService) = Inr sampleNames"
  by code_simp

lemma sample_putPendingMessage:
  "fst (putPendingMessage (FakeQueueClient sampleSlug) sampleLib sampleTask 0 ''h1'' 1000
          sampleService) = Inr ()"
  by code_simp

lemma sample_putPendingMessage_count:
  "fst (getMetadata (FakeQueueClient sampleSlug) sampleQueue
          (client (snd (putPendingMessage (FakeQueueClient sampleSlug) sampleLib sampleTask 0
                          ''h1'' 1000 sampleService)))) =
   Inr (Some \<lparr>provisioner_id = Some ''prov1'', worker_type = Some ''wt1'',
               last_used = Some ''1970-01-01T00:00:01.000Z''\<rparr>, 1)"
  by code_simp

text \<open>
  A task whose deadline was one second ago: the call succeeds, one message is published
  and the queue of priority \<open>medium\<close> holds one message afterwards.
\<close>

theorem putPendingMessage_past_deadline_witness:
  "task.deadline sampleTask \<le> 1000 \<and>
   fst (putPendingMessage (FakeQueueClient sampleSlug) sampleLib sampleTask 0 ''h1'' 1000
          sampleService) = Inr () \<and>
   published (snd (putPendingMessage (FakeQueueClient sampleSlug) sampleLib sampleTask 0 ''h1''
                     1000 sampleService)) =
     [PutMessage sampleQueue ''eyJ0YXNrSWQiOiJ0MSIsInJ1bklkIjowLCJoaW50SWQiOiJoMSJ9'' 0 1] \<and>
   fst (getMetadata (FakeQueueClient sampleSlug) sampleQueue
          (client (snd (putPendingMessage (FakeQueueClient sampleSlug) sampleLib sampleTask 0
                          ''h1'' 1000 sampleService)))) =
     Inr (Some \<lparr>provisioner_id = Some ''prov1'', worker_type = Some ''wt1'',
                 last_used = Some ''1970-01-01T00:00:01.000Z''\<rparr>, 1)"
proof -
  have past: "task.deadline sampleTask \<le> 1000" by (simp add: sampleTask_def)
  have ens: "fst (ensurePendingQueue (FakeQueueClient sampleSlug) sampleLib
                    (provisionerId sampleTask) (workerType sampleTask) 1000 sampleService)
             = Inr sampleNames"
    using sample_ensurePendingQueue by (simp add: sampleTask_def)
  have "published (snd (putPendingMessage (FakeQueueClient sampleSlug) sampleLib sampleTask 0
                          ''h1'' 1000 sampleService)) =
          published sampleService @
            [PutMessage (lookup sampleNames (priority sampleTask))
               (encode sampleLib
                  (JObj [(''taskId'', JStr (task.taskId sampleTask)), (''runId'', JNum 0),
                         (''hintId'', JStr ''h1'')]))
               0 1]"
    by (rule putPendingMessage_past_deadline [OF past ens])
  then have "published (snd (putPendingMessage (FakeQueueClient sampleSlug) sampleLib sampleTask 0
                          ''h1'' 1000 sampleService)) =
     [PutMessage sampleQueue ''eyJ0YXNrSWQiOiJ0MSIsInJ1bklkIjowLCJoaW50SWQiOiJoMSJ9'' 0 1]"
    by (simp add: published_def sampleService_def lookup_def sampleNames_def sampleTask_def
        sampleLib_def sampleQueue_def)
  with past sample_putPendingMessage sample_putPendingMessage_count show ?thesis by simp
qed



subsection \<open>The cache of pending queues\<close>











subsection \<open>Polling the pending queues\<close>























subsection \<open>Removing unused worker queues\<close>






text \<open>Every operation of the in-memory client keeps the queue names distinct.\<close>

lemma fake_distinct:
  assumes "distinct (map fst (fake_queues c))"
  shows "distinct (map fst (fake_queues (snd (fake_createQueue name md c))))"
    and "distinct (map fst (fake_queues (snd (fake_getMetadata name c))))"
    and "distinct (map fst (fake_queues (snd (fake_setMetadata name upd c))))"
    and "distinct (map fst (fake_queues (snd (fake_putMessage slug name text vis ttl now c))))"
    and "distinct (map fst (fake_queues (snd (fake_getMessages slug name vis n now c))))"
    and "distinct (map fst (fake_queues (snd (fake_deleteMessage name msgId receipt c))))"
    and "distinct (map fst (fake_queues (snd (fake_updateMessage name text msgId receipt vis now c))))"
    and "distinct (map fst (fake_queues (snd (fake_listQueues marker pfx c))))"
    and "distinct (map fst (fake_queues (snd (fake_deleteQueue name c))))"
  using assms
  by (auto simp: fake_createQueue_def fake_getMetadata_def fake_setMetadata_def
      fake_putMessage_def fake_getMessages_def fake_deleteMessage_def fake_updateMessage_def
      fake_listQueues_def fake_deleteQueue_def distinct_update distinct_delete
      split: sum.splits prod.splits option.splits)

lemma cache_store_same:
  "countPendingCache s k = Some e \<Longrightarrow> s\<lparr>countPendingCache := (countPendingCache s)(k \<mapsto> e)\<rparr> = s"
  by (simp add: map_upd_triv)

subsection \<open>Counting pending messages\<close>

text \<open>
  C3, amended: when the cache holds an entry for the two identifiers that is at most
  20 seconds old, \<open>countPendingMessages\<close> returns the \<open>count\<close> of the entry and leaves
  the state as it was: no client call is made. When the entry is more than 20 seconds
  old, or when there is none, the count is computed anew, stored in the entry with the
  current time, and this new count is what the caller receives: the sum of the
  message counts that \<open>getMetadata\<close> gives for the queues of the seven priorities.
\<close>

theorem countPendingMessages_cached:
  "(\<forall>e. countPendingCache s (pid @ ''/'' @ wt) = Some e \<and> now - lastUpdated e \<le> 20 * 1000 \<longrightarrow>
      countPendingMessages C L pid wt now s = (count e, s)) \<and>
   (\<forall>e. countPendingCache s (pid @ ''/'' @ wt) = Some e \<and> now - lastUpdated e > 20 * 1000 \<longrightarrow>
      fst (countPendingMessages C L pid wt now s) = fst (sumMessageCounts C L pid wt now s) \<and>
      countPendingCache (snd (countPendingMessages C L pid wt now s)) (pid @ ''/'' @ wt) =
        Some \<lparr>count = fst (sumMessageCounts C L pid wt now s), lastUpdated = now\<rparr>) \<and>
   (countPendingCache s (pid @ ''/'' @ wt) = None \<and> now > 20 * 1000 \<longrightarrow>
      fst (countPendingMessages C L pid wt now s) =
        fst (sumMessageCounts C L pid wt now
               (s\<lparr>countPendingCache :=
                    (countPendingCache s)(pid @ ''/'' @ wt \<mapsto> \<lparr>count = Inr 0, lastUpdated = 0\<rparr>)\<rparr>))) \<and>
   (\<forall>names. fst (ensurePendingQueue C L pid wt now s) = Inr names \<longrightarrow>
      fst (sumMessageCounts C L pid wt now s) =
        (case fst (promiseAll
                     (map (\<lambda>(priority, queueName).
                             invoke (GetMetadata queueName) (getMetadata C queueName)) names)
                     (snd (ensurePendingQueue C L pid wt now s))) of
           Inl err \<Rightarrow> Inl err
         | Inr results \<Rightarrow> Inr (sum_list (map snd results))))"
proof -
  let ?k = "pid @ ''/'' @ wt"
  have a: "\<forall>e. countPendingCache s ?k = Some e \<and> now - lastUpdated e \<le> 20 * 1000 \<longrightarrow>
      countPendingMessages C L pid wt now s = (count e, s)"
    by (auto simp: countPendingMessages_def Let_def cache_store_same)
  have b: "\<forall>e. countPendingCache s ?k = Some e \<and> now - lastUpdated e > 20 * 1000 \<longrightarrow>
      fst (countPendingMessages C L pid wt now s) = fst (sumMessageCounts C L pid wt now s) \<and>
      countPendingCache (snd (countPendingMessages C L pid wt now s)) ?k =
        Some \<lparr>count = fst (sumMessageCounts C L pid wt now s), lastUpdated = now\<rparr>"
    by (auto simp: countPendingMessages_def Let_def cache_store_same split: prod.splits)
  have c: "countPendingCache s ?k = None \<and> now > 20 * 1000 \<longrightarrow>
      fst (countPendingMessages C L pid wt now s) =
        fst (sumMessageCounts C L pid wt now
               (s\<lparr>countPendingCache :=
                    (countPendingCache s)(?k \<mapsto> \<lparr>count = Inr 0, lastUpdated = 0\<rparr>)\<rparr>))"
    by (auto simp: countPendingMessages_def Let_def split: prod.splits)
  have d: "\<forall>names. fst (ensurePendingQueue C L pid wt now s) = Inr names \<longrightarrow>
      fst (sumMessageCounts C L pid wt now s) =
        (case fst (promiseAll
                     (map (\<lambda>(priority, queueName).
                             invoke (GetMetadata queueName) (getMetadata C queueName)) names)
                     (snd (ensurePendingQueue C L pid wt now s))) of
           Inl err \<Rightarrow> Inl err
         | Inr results \<Rightarrow> Inr (sum_list (map snd results)))"
    by (auto simp: sumMessageCounts_def split: prod.splits sum.splits)
  from a b c d show ?thesis by blast
qed

lemma counted_entry:
  "countPendingCache countedService (''prov1'' @ ''/'' @ ''wt1'') =
     Some \<lparr>count = Inr 0, lastUpdated = 864000000\<rparr>"
  unfolding countedService_def by code_simp

lemma counted_sum:
  "fst (sumMessageCounts (FakeQueueClient sampleSlug) sampleLib ''prov1'' ''wt1'' 864030000
          countedService) = Inr 1"
  unfolding countedService_def by code_simp

text \<open>
  C3 as stated fails: the caller does not receive the previously known value when the
  entry is old. The entry holds the count 0 from 30 seconds ago, a message has been
  published since, and the caller receives 1.
\<close>

theorem countPendingMessages_cached_counterexample:
  "countPendingCache countedService ''prov1/wt1'' =
     Some \<lparr>count = Inr 0, lastUpdated = 864000000\<rparr> \<and>
   864030000 - 864000000 > (20 * 1000 :: int) \<and>
   fst (countPendingMessages (FakeQueueClient sampleSlug) sampleLib ''prov1'' ''wt1'' 864030000
          countedService) = Inr 1"
proof -
  have "fst (countPendingMessages (FakeQueueClient sampleSlug) sampleLib ''prov1'' ''wt1''
               864030000 countedService) = Inr 1"
    unfolding countedService_def by code_simp
  with counted_entry show ?thesis by simp
qed

text \<open>
  Ten seconds after the entry was stored the count 0 of the entry is returned and the
  state is unchanged; thirty seconds after, the count is 1 and the entry is replaced.
\<close>

theorem countPendingMessages_cached_witness:
  "countPendingMessages (FakeQueueClient sampleSlug) sampleLib ''prov1'' ''wt1'' 864010000
     countedService = (Inr 0, countedService) \<and>
   fst (countPendingMessages (FakeQueueClient sampleSlug) sampleLib ''prov1'' ''wt1'' 864030000
          countedService) = Inr 1 \<and>
   countPendingCache
     (snd (countPendingMessages (FakeQueueClient sampleSlug) sampleLib ''prov1'' ''wt1'' 864030000
             countedService)) ''prov1/wt1'' = Some \<lparr>count = Inr 1, lastUpdated = 864030000\<rparr>"
proof -
  let ?F = "FakeQueueClient sampleSlug"
  let ?e = "\<lparr>count = Inr 0, lastUpdated = 864000000\<rparr>"
  have a: "countPendingMessages ?F sampleLib ''prov1'' ''wt1'' 864010000 countedService =
             (count ?e, countedService)"
    using countPendingMessages_cached [of countedService "''prov1''" "''wt1''" 864010000 ?F
        sampleLib, THEN conjunct1, THEN spec, THEN mp, of ?e] counted_entry
    by simp
  have b: "fst (countPendingMessages ?F sampleLib ''prov1'' ''wt1'' 864030000 countedService) =
             fst (sumMessageCounts ?F sampleLib ''prov1'' ''wt1'' 864030000 countedService) \<and>
           countPendingCache
             (snd (countPendingMessages ?F sampleLib ''prov1'' ''wt1'' 864030000 countedService))
             (''prov1'' @ ''/'' @ ''wt1'') =
             Some \<lparr>count = fst (sumMessageCounts ?F sampleLib ''prov1'' ''wt1'' 864030000
                                  countedService),
                    lastUpdated = 864030000\<rparr>"
    using countPendingMessages_cached [of countedService "''prov1''" "''wt1''" 864030000 ?F
        sampleLib, THEN conjunct2, THEN conjunct1, THEN spec, THEN mp, of ?e] counted_entry
    by simp
  from a b counted_sum show ?thesis by simp
qed

subsection \<open>The loop of getMessages\<close>















subsection \<open>Guarded messages\<close>

lemma guarded_queue:
  "guarded slug q k P c \<Longrightarrow> map_of (fake_queues c) q = Some queue \<Longrightarrow>
     list_all (\<lambda>msg. storedId msg \<noteq> slug k \<or> P msg) queue"
  by (simp add: guarded_def)

lemma guardedI:
  "k < draws c \<Longrightarrow>
   (\<And>queue. map_of (fake_queues c) q = Some queue \<Longrightarrow>
       list_all (\<lambda>msg. storedId msg \<noteq> slug k \<or> P msg) queue) \<Longrightarrow>
   guarded slug q k P c"
  by (simp add: guarded_def split: option.splits)









subsection \<open>Visibility delays\<close>










subsection \<open>The service over the in-memory client\<close>






























subsection \<open>Visibility of claim and deadline messages\<close>













subsection \<open>Fetching, removing and releasing the last message of a queue\<close>









subsection \<open>The round trip of a message, its removal and its release\<close>







lemma fetched_again:
  "fst (getMessages' (FakeQueueClient sampleSlug) sampleLib sampleQueue 300 1 2001
          (snd (run (FakeQueueClient sampleSlug) (received.release sampleReceived) 2000
                  fetchedService))) =
     Inr [\<lparr>payload = sampleHint, remove = BoundDelete sampleQueue ''id0'' ''id2'',
           release = BoundUpdate sampleQueue
                       ''eyJ0YXNrSWQiOiJ0MSIsInJ1bklkIjowLCJoaW50SWQiOiJoMSJ9'' ''id0'' ''id2'' 0\<rparr>]"
  unfolding fetchedService_def sampleReceived_def sampleHint_def usedService_def
    sampleService_def sampleQueue_def
  by code_simp





end
